theory Spec2Isabelle
  imports Complex_Main "HOL-Library.Word"
begin

section \<open>The wavetable generator of vapo2 (generate\_wavetables.py)\<close>

text \<open>
  The embedding follows \<^verbatim>\<open>src/drumlogue/vapo2/resources/generate_wavetables.py\<close>.
  NumPy arrays are lists: \<^verbatim>\<open>uint8\<close> samples are \<^typ>\<open>8 word\<close>, \<^verbatim>\<open>int16\<close> samples are
  \<^typ>\<open>16 word\<close> (read with \<^const>\<open>sint\<close>), and \<^verbatim>\<open>float64\<close> values are idealised as
  \<^typ>\<open>real\<close>. Every place where the Python raises is a branch returning \<open>Inl\<close>.
\<close>

subsection \<open>Configuration\<close>

definition PPG_SAMPLES :: nat where "PPG_SAMPLES = 64"
definition TARGET_SAMPLES :: nat where "TARGET_SAMPLES = 256"
definition GUARD_SAMPLES :: nat where "GUARD_SAMPLES = 4"
definition WAVES_PER_BANK :: nat where "WAVES_PER_BANK = 8"
definition NUM_BANKS :: nat where "NUM_BANKS = 16"

text \<open>The dictionary \<^verbatim>\<open>BANK_SELECTIONS\<close>, in insertion order (the order Python iterates it in).\<close>

definition BANK_SELECTIONS :: "(string \<times> nat list) list" where
  "BANK_SELECTIONS =
    [(''UPPER_WT'', [0, 1, 2, 3, 4, 5, 6, 7]),
     (''RESONANT1'', [8, 9, 10, 11, 12, 13, 14, 15]),
     (''RESONANT2'', [16, 17, 18, 19, 20, 21, 22, 23]),
     (''MELLOW'', [24, 25, 26, 27, 28, 29, 30, 31]),
     (''BRIGHT'', [32, 33, 34, 35, 36, 37, 38, 39]),
     (''HARSH'', [40, 41, 42, 43, 44, 45, 46, 47]),
     (''CLIPPER'', [48, 49, 50, 51, 52, 53, 54, 55]),
     (''SYNC'', [56, 57, 58, 59, 60, 61, 62, 63]),
     (''PWM'', [64, 65, 66, 67, 68, 69, 70, 71]),
     (''VOCAL1'', [72, 73, 74, 75, 76, 77, 78, 79]),
     (''VOCAL2'', [80, 81, 82, 83, 84, 85, 86, 87]),
     (''ORGAN'', [88, 89, 90, 91, 92, 93, 94, 95]),
     (''BELL'', [96, 97, 98, 99, 100, 101, 102, 103]),
     (''ALIEN'', [104, 105, 106, 107, 108, 109, 110, 111]),
     (''NOISE'', [112, 113, 114, 115, 116, 117, 118, 119]),
     (''SPECIAL'', [120, 121, 122, 123, 124, 125, 126, 127])]"

subsection \<open>Errors and the NumPy primitives the script uses\<close>

datatype error = IndexError | ValueError | OverflowError | DivideByZero

text \<open>\<^verbatim>\<open>np.clip(x, lo, hi)\<close> on one element.\<close>

definition np_clip :: "real \<Rightarrow> real \<Rightarrow> real \<Rightarrow> real" where
  "np_clip x lo hi = min (max x lo) hi"

text \<open>
  \<^verbatim>\<open>.astype(np.int16)\<close> on one \<^verbatim>\<open>float64\<close>: the fraction is dropped (rounding towards
  zero) and the integer is stored in 16 bits.
\<close>

definition trunc_toward_zero :: "real \<Rightarrow> int" where
  "trunc_toward_zero x = (if x < 0 then \<lceil>x\<rceil> else \<lfloor>x\<rfloor>)"

definition astype_int16 :: "real \<Rightarrow> 16 word" where
  "astype_int16 x = word_of_int (trunc_toward_zero x)"

text \<open>\<^verbatim>\<open>.astype(np.float64)\<close> on a \<^verbatim>\<open>uint8\<close> and on an \<^verbatim>\<open>int16\<close> sample.\<close>

definition float_of_uint8 :: "8 word \<Rightarrow> real" where
  "float_of_uint8 w = real_of_int (uint w)"

definition float_of_int16 :: "16 word \<Rightarrow> real" where
  "float_of_int16 w = real_of_int (sint w)"

subsection \<open>Signal Converter: \<^verbatim>\<open>convert_to_signed16\<close>\<close>

text \<open>
  \<^verbatim>\<open>signed = (wave.astype(np.float64) - 128.0) * 256.0\<close>, then
  \<^verbatim>\<open>np.clip(signed, -32767, 32767).astype(np.int16)\<close>. The function has no \<^verbatim>\<open>raise\<close> and
  no check of its argument, so the result is always \<open>Inr\<close>.
\<close>

definition signed_of_sample :: "8 word \<Rightarrow> real" where
  "signed_of_sample w = (float_of_uint8 w - 128) * 256"

definition convert_to_signed16 :: "8 word list \<Rightarrow> error + 16 word list" where
  "convert_to_signed16 wave =
     Inr (map (\<lambda>w. astype_int16 (np_clip (signed_of_sample w) (- 32767) 32767)) wave)"

subsection \<open>Legacy Waveform Extractor: the chunking loop of \<^verbatim>\<open>parse_ppg_waveforms\<close>\<close>

text \<open>
  The regular expressions of \<^verbatim>\<open>parse_ppg_waveforms\<close> produce the list \<^verbatim>\<open>values\<close> of
  non-negative Python integers; the model starts from that list.
  \<^verbatim>\<open>range(0, n, step)\<close> and the slice \<^verbatim>\<open>values[i:j]\<close> (which stops at the end of the
  list) are written out. \<^verbatim>\<open>np.array(chunk, dtype=np.uint8)\<close> stores each integer in a
  byte; an integer above 255 does not fit, and the conversion raises \<^verbatim>\<open>OverflowError\<close>
  (NumPy 2; older releases wrapped such a value instead, so both agree on byte values).
\<close>

definition py_range_step :: "nat \<Rightarrow> nat \<Rightarrow> nat list" where
  "py_range_step n step = map (\<lambda>k. k * step) [0 ..< (n + step - 1) div step]"

definition py_slice :: "'a list \<Rightarrow> nat \<Rightarrow> nat \<Rightarrow> 'a list" where
  "py_slice xs i j = take (j - i) (drop i xs)"

definition np_array_uint8 :: "nat list \<Rightarrow> error + 8 word list" where
  "np_array_uint8 vs =
     (if list_all (\<lambda>v. v < 256) vs then Inr (map of_nat vs) else Inl OverflowError)"

fun collect_waveforms :: "nat list \<Rightarrow> nat list \<Rightarrow> error + 8 word list list" where
  "collect_waveforms values [] = Inr []"
| "collect_waveforms values (i # rest) =
     (if i + PPG_SAMPLES \<le> length values then
        (case np_array_uint8 (py_slice values i (i + PPG_SAMPLES)) of
           Inl e \<Rightarrow> Inl e
         | Inr w \<Rightarrow>
            (case collect_waveforms values rest of
               Inl e \<Rightarrow> Inl e
             | Inr ws \<Rightarrow> Inr (w # ws)))
      else collect_waveforms values rest)"

definition split_waveforms :: "nat list \<Rightarrow> error + 8 word list list" where
  "split_waveforms values = collect_waveforms values (py_range_step (length values) PPG_SAMPLES)"

subsection \<open>Periodic Resampler: \<^verbatim>\<open>interpolate_wave\<close>\<close>

text \<open>\<^verbatim>\<open>np.linspace(start, stop, num)\<close> and \<^verbatim>\<open>np.linspace(start, stop, num, endpoint=False)\<close>.\<close>

definition np_linspace :: "real \<Rightarrow> real \<Rightarrow> nat \<Rightarrow> real list" where
  "np_linspace start stop num =
     (if num = 1 then [start]
      else map (\<lambda>i. start + real i * ((stop - start) / real (num - 1))) [0 ..< num])"

definition np_linspace_open :: "real \<Rightarrow> real \<Rightarrow> nat \<Rightarrow> real list" where
  "np_linspace_open start stop num =
     map (\<lambda>i. start + real i * ((stop - start) / real num)) [0 ..< num]"

text \<open>
  \<^verbatim>\<open>scipy.interpolate.interp1d(x, y, kind='cubic')\<close> is a library routine outside the
  repository. It is a parameter of the model: given the abscissas and the ordinates it
  either raises (too few points) or returns the fitted function, which
  \<^verbatim>\<open>interpolate_wave\<close> evaluates at every point of \<^verbatim>\<open>x_new\<close>. All points of \<^verbatim>\<open>x_new\<close>
  lie in \<open>[0, 1)\<close>, inside the fitted range, so the evaluation itself does not raise.
\<close>

type_synonym interp1d = "real list \<Rightarrow> real list \<Rightarrow> error + (real \<Rightarrow> real)"

definition wave_extended :: "16 word list \<Rightarrow> real list" where
  "wave_extended wave = map float_of_int16 (wave @ take 4 wave)"

definition x_extended :: "16 word list \<Rightarrow> real list" where
  "x_extended wave =
     (let x_old = np_linspace_open 0 1 (length wave)
      in x_old @ map (\<lambda>x. x + 1) (take 4 x_old))"

definition interpolate_wave :: "interp1d \<Rightarrow> 16 word list \<Rightarrow> nat \<Rightarrow> error + real list" where
  "interpolate_wave cubic wave target_samples =
     (let x_new = np_linspace_open 0 1 target_samples
      in case cubic (x_extended wave) (wave_extended wave) of
           Inl e \<Rightarrow> Inl e
         | Inr f \<Rightarrow> Inr (map f x_new))"

subsection \<open>Anti-Aliasing Integrator: \<^verbatim>\<open>integrate_wave\<close>\<close>

fun cumsum_from :: "real \<Rightarrow> real list \<Rightarrow> real list" where
  "cumsum_from acc [] = []"
| "cumsum_from acc (x # xs) = (acc + x) # cumsum_from (acc + x) xs"

definition np_cumsum :: "real list \<Rightarrow> real list" where
  "np_cumsum xs = cumsum_from 0 xs"

text \<open>\<^verbatim>\<open>np.max\<close> raises \<^verbatim>\<open>ValueError\<close> on an empty array.\<close>

definition np_max :: "real list \<Rightarrow> error + real" where
  "np_max xs = (case xs of [] \<Rightarrow> Inl ValueError | x # rest \<Rightarrow> Inr (fold max rest x))"

text \<open>
  Lines 150 to 152: \<^verbatim>\<open>dc_ramp = np.linspace(0, integrated[-1], n)\<close> for a non-empty array,
  and the array after \<^verbatim>\<open>integrated = integrated - dc_ramp\<close>.
\<close>

definition dc_ramp :: "real list \<Rightarrow> real list" where
  "dc_ramp integrated = np_linspace 0 (last integrated) (length integrated)"

definition drift_removed :: "real list \<Rightarrow> real list" where
  "drift_removed wave =
     (let integrated = np_cumsum wave in map2 (-) integrated (dc_ramp integrated))"

definition to_int16 :: "real list \<Rightarrow> 16 word list" where
  "to_int16 xs = map (\<lambda>x. astype_int16 (np_clip x (- 32767) 32767)) xs"

text \<open>
  Lines 155 to 159, on the array \<^verbatim>\<open>integrated\<close> that lines 147 to 152 have computed.
  \<^verbatim>\<open>np.abs\<close>, \<^verbatim>\<open>np.max\<close>, the comparison \<^verbatim>\<open>max_val > 0\<close>, \<^verbatim>\<open>np.clip\<close> and the cast are
  exact on float64 values. The quotient \<^verbatim>\<open>30000.0 / max_val\<close> and the products are
  float64 operations: each is the exact result rounded to a float64, and the rounding
  \<open>fl\<close> is a parameter of the model. A division whose divisor is zero is made a result of
  its own (NumPy signals divide-by-zero there), so that its absence can be stated.
\<close>

definition float_div :: "(real \<Rightarrow> real) \<Rightarrow> real \<Rightarrow> real \<Rightarrow> error + real" where
  "float_div fl a b = (if b = 0 then Inl DivideByZero else Inr (fl (a / b)))"

definition normalise_wave :: "(real \<Rightarrow> real) \<Rightarrow> real list \<Rightarrow> error + 16 word list" where
  "normalise_wave fl integrated =
     (case np_max (map abs integrated) of
        Inl e \<Rightarrow> Inl e
      | Inr max_val \<Rightarrow>
          if max_val > 0 then
            (case float_div fl 30000 max_val of
               Inl e \<Rightarrow> Inl e
             | Inr k \<Rightarrow> Inr (to_int16 (map (\<lambda>x. fl (x * k)) integrated)))
          else Inr (to_int16 integrated))"

text \<open>
  The whole function, with lines 147 to 152 and the scaling in exact arithmetic (no
  rounding): \<^verbatim>\<open>integrated[-1]\<close> raises \<^verbatim>\<open>IndexError\<close> on an empty array. The values of
  this composition can differ from the float64 values of the code by rounding; its
  errors and the length of its result do not.
\<close>

definition integrate_wave :: "real list \<Rightarrow> error + 16 word list" where
  "integrate_wave wave =
     (if np_cumsum wave = [] then Inl IndexError
      else normalise_wave (\<lambda>x. x) (drift_removed wave))"

subsection \<open>Guard Appender: \<^verbatim>\<open>add_guard_samples\<close>\<close>

definition add_guard_samples :: "16 word list \<Rightarrow> nat \<Rightarrow> 16 word list" where
  "add_guard_samples wave num_guard = wave @ take num_guard wave"

subsection \<open>Bank Assembler: \<^verbatim>\<open>generate_wavetables_h\<close>\<close>

text \<open>
  What the script writes is modelled by its content, not by its layout as C text: the
  sample arrays with their names, the pointer array of every bank, the master array and
  the table of bank names. The messages \<^verbatim>\<open>Warning: Wave n not found, using wave 0\<close> are
  collected, in the order they are printed, as the list of the numbers \<open>n\<close>; they are
  printed whether or not the run fails later. The file is written after all waves have
  been processed, so a run that raises writes nothing.
\<close>

record wave_array =
  wave_name :: string
  ppg_wave :: nat
  samples :: "16 word list"

record bank_section =
  bank_name :: string
  wave_arrays :: "wave_array list"
  bank_ptr_name :: string
  bank_ptr_entries :: "string list"

record wavetables_h =
  sections :: "bank_section list"
  wavetable_banks :: "string list"
  wavetable_bank_names :: "string list"

text \<open>\<^verbatim>\<open>str.lower()\<close> on ASCII text and \<^verbatim>\<open>str(i)\<close> of a non-negative integer.\<close>

definition lower_char :: "char \<Rightarrow> char" where
  "lower_char c =
     (let n = (of_char c :: nat) in if 65 \<le> n \<and> n \<le> 90 then char_of (n + 32) else c)"

definition lower :: "string \<Rightarrow> string" where
  "lower s = map lower_char s"

fun str_nat :: "nat \<Rightarrow> string" where
  "str_nat n =
     (if n < 10 then [char_of (48 + n)] else str_nat (n div 10) @ [char_of (48 + n mod 10)])"

declare str_nat.simps [simp del]

text \<open>Lines 237 to 246: one selected waveform through the stages.\<close>

definition process_wave ::
  "interp1d \<Rightarrow> 8 word list list \<Rightarrow> bool \<Rightarrow> nat \<Rightarrow> error + 16 word list" where
  "process_wave cubic waveforms integrate wave_idx =
     (if wave_idx < length waveforms then
        (case convert_to_signed16 (waveforms ! wave_idx) of
           Inl e \<Rightarrow> Inl e
         | Inr signed16 \<Rightarrow>
            (case interpolate_wave cubic signed16 TARGET_SAMPLES of
               Inl e \<Rightarrow> Inl e
             | Inr interpolated \<Rightarrow>
                (case (if integrate then integrate_wave interpolated
                       else Inr (to_int16 interpolated)) of
                   Inl e \<Rightarrow> Inl e
                 | Inr processed \<Rightarrow> Inr (add_guard_samples processed GUARD_SAMPLES))))
      else Inl IndexError)"

text \<open>
  Both loops run their body on every element in turn, append what it printed to the
  output so far, and stop at the first error. \<open>then_rest\<close> joins the outcome of one round
  with the outcome of the rounds after it.
\<close>

definition then_rest ::
  "nat list \<times> (error + 'a) \<Rightarrow> nat list \<times> (error + 'a list) \<Rightarrow> nat list \<times> (error + 'a list)" where
  "then_rest this rest =
     (case this of
        (msgs, Inl e) \<Rightarrow> (msgs, Inl e)
      | (msgs, Inr x) \<Rightarrow>
         (case rest of
            (msgs', Inl e) \<Rightarrow> (msgs @ msgs', Inl e)
          | (msgs', Inr xs) \<Rightarrow> (msgs @ msgs', Inr (x # xs))))"

text \<open>
  The body of the inner loop \<^verbatim>\<open>for i, wave_idx in enumerate(wave_indices)\<close>, lines 232 to
  254: the warning printed, if any, and either the error raised or the array of the slot.
\<close>

definition process_slot ::
  "interp1d \<Rightarrow> 8 word list list \<Rightarrow> bool \<Rightarrow> string \<Rightarrow> nat \<Rightarrow> nat
     \<Rightarrow> nat list \<times> (error + wave_array)" where
  "process_slot cubic waveforms integrate name i wave_idx =
     (let warned = (if wave_idx \<ge> length waveforms then [wave_idx] else []);
          wave_idx = (if wave_idx \<ge> length waveforms then 0 else wave_idx)
      in case process_wave cubic waveforms integrate wave_idx of
           Inl e \<Rightarrow> (warned, Inl e)
         | Inr with_guard \<Rightarrow>
            (warned, Inr \<lparr>wave_name = ''wt_'' @ lower name @ ''_'' @ str_nat i,
                          ppg_wave = wave_idx, samples = with_guard\<rparr>))"

primrec process_waves ::
  "interp1d \<Rightarrow> 8 word list list \<Rightarrow> bool \<Rightarrow> string \<Rightarrow> nat \<Rightarrow> nat list
     \<Rightarrow> nat list \<times> (error + wave_array list)" where
  "process_waves cubic waveforms integrate name i [] = ([], Inr [])"
| "process_waves cubic waveforms integrate name i (wave_idx # rest) =
     then_rest (process_slot cubic waveforms integrate name i wave_idx)
       (process_waves cubic waveforms integrate name (Suc i) rest)"

text \<open>One round of the outer loop: the arrays of a bank, then its pointer array.\<close>

definition process_bank ::
  "interp1d \<Rightarrow> 8 word list list \<Rightarrow> bool \<Rightarrow> string \<times> nat list
     \<Rightarrow> nat list \<times> (error + bank_section)" where
  "process_bank cubic waveforms integrate selection =
     (case selection of (name, wave_indices) \<Rightarrow>
        (case process_waves cubic waveforms integrate name 0 wave_indices of
           (msgs, Inl e) \<Rightarrow> (msgs, Inl e)
         | (msgs, Inr entries) \<Rightarrow>
            (case map wave_name entries of
               [] \<Rightarrow> (msgs, Inl IndexError)
             | first # others \<Rightarrow>
                (msgs, Inr \<lparr>bank_name = name, wave_arrays = entries,
                           bank_ptr_name = ''wavetable_bank_'' @ lower name,
                           bank_ptr_entries = (first # others) @ [first]\<rparr>))))"

primrec process_banks ::
  "interp1d \<Rightarrow> 8 word list list \<Rightarrow> bool \<Rightarrow> (string \<times> nat list) list
     \<Rightarrow> nat list \<times> (error + bank_section list)" where
  "process_banks cubic waveforms integrate [] = ([], Inr [])"
| "process_banks cubic waveforms integrate (selection # rest) =
     then_rest (process_bank cubic waveforms integrate selection)
       (process_banks cubic waveforms integrate rest)"

text \<open>
  The whole function for a given selection table. The header text reads
  \<^verbatim>\<open>indices[0]\<close> and \<^verbatim>\<open>indices[-1]\<close> of every bank before any wave is processed, which
  raises \<^verbatim>\<open>IndexError\<close> on an empty selection.
\<close>

definition generate_for ::
  "(string \<times> nat list) list \<Rightarrow> interp1d \<Rightarrow> 8 word list list \<Rightarrow> bool
     \<Rightarrow> nat list \<times> (error + wavetables_h)" where
  "generate_for selections cubic waveforms integrate =
     (if list_ex (\<lambda>(name, indices). indices = []) selections then ([], Inl IndexError)
      else
        (case process_banks cubic waveforms integrate selections of
           (msgs, Inl e) \<Rightarrow> (msgs, Inl e)
         | (msgs, Inr bs) \<Rightarrow>
            (msgs, Inr \<lparr>sections = bs,
                       wavetable_banks =
                         map (\<lambda>(name, indices). ''wavetable_bank_'' @ lower name) selections,
                       wavetable_bank_names = map fst selections\<rparr>)))"

definition generate_wavetables_h ::
  "interp1d \<Rightarrow> 8 word list list \<Rightarrow> bool \<Rightarrow> nat list \<times> (error + wavetables_h)" where
  "generate_wavetables_h cubic waveforms integrate =
     generate_for BANK_SELECTIONS cubic waveforms integrate"

subsection \<open>What the properties need of the library, and data to run the model on\<close>

text \<open>
  On a flat waveform of \<open>PPG_SAMPLES\<close> samples the cubic fit succeeds and, on the phases
  \<open>[0, 1)\<close>, stays within \<open>1/2\<close> of the waveform's level. (The spline through equal
  ordinates is the constant; the library's float64 result is within rounding of it.)
\<close>

definition follows_flat_data :: "interp1d \<Rightarrow> bool" where
  "follows_flat_data cubic \<longleftrightarrow>
     (\<forall>v. \<exists>f. cubic (x_extended (replicate PPG_SAMPLES v))
                   (wave_extended (replicate PPG_SAMPLES v)) = Inr f \<and>
               (\<forall>x. 0 \<le> x \<and> x < 1 \<longrightarrow> \<bar>f x - float_of_int16 v\<bar> \<le> 1 / 2))"

text \<open>
  One instance of the parameter, to run the model on: \<open>linear_fit\<close> joins neighbouring
  data points by straight lines and, like the library's cubic fit, wants at least four
  points. It passes through its data, and through equal ordinates it is the constant.
  It is not the library's spline, and only witnesses refer to it. On all-zero ordinates
  the two agree: a linear solve with a zero right-hand side gives zero coefficients, so
  the library's spline is the zero function there as well.
\<close>

fun segment_value :: "real list \<Rightarrow> real list \<Rightarrow> real \<Rightarrow> real" where
  "segment_value (x0 # x1 # xs) (y0 # y1 # ys) x =
     (if x < x1 then y0 + (x - x0) * ((y1 - y0) / (x1 - x0))
      else segment_value (x1 # xs) (y1 # ys) x)"
| "segment_value xs (y # ys) x = y"
| "segment_value xs [] x = 0"

definition linear_fit :: interp1d where
  "linear_fit xs ys =
     (if length ys < 4 \<or> length xs \<noteq> length ys then Inl ValueError
      else Inr (segment_value xs ys))"



section \<open>Properties\<close>

subsection \<open>Signal Converter\<close>

lemma trunc_toward_zero_of_int: "trunc_toward_zero (real_of_int k) = k"
  by (simp add: trunc_toward_zero_def)

lemma signed_of_sample_int: "signed_of_sample w = real_of_int ((uint w - 128) * 256)"
  by (simp add: signed_of_sample_def float_of_uint8_def)

lemma np_clip_of_int:
  "np_clip (real_of_int k) (- 32767) 32767 = real_of_int (min (max k (- 32767)) 32767)"
  by (simp add: np_clip_def min_def max_def)

lemma converted_sample:
  "sint (astype_int16 (np_clip (signed_of_sample w) (- 32767) 32767))
     = min (max ((uint w - 128) * 256) (- 32767)) 32767"
proof -
  let ?k = "min (max ((uint w - 128) * 256) (- 32767)) (32767 :: int)"
  have "astype_int16 (np_clip (signed_of_sample w) (- 32767) 32767) = word_of_int ?k"
    by (simp only: signed_of_sample_int np_clip_of_int astype_int16_def
        trunc_toward_zero_of_int)
  moreover have "sint (word_of_int ?k :: 16 word) = ?k"
    by (simp add: sint_sbintrunc' signed_take_bit_int_eq_self)
  ultimately show ?thesis by simp
qed

lemma converted_sample_bounds:
  "- 32767 \<le> sint (astype_int16 (np_clip (signed_of_sample w) (- 32767) 32767))"
  "sint (astype_int16 (np_clip (signed_of_sample w) (- 32767) 32767)) \<le> 32767"
  by (simp_all add: converted_sample)

text \<open>
  C5. For every raw waveform the Signal Converter returns a waveform of the same length,
  and every output sample, read as a signed 16-bit number, is the clipped value of
  \<open>(raw - 128) * 256\<close> itself (the 16-bit store did not wrap) and lies within the signed
  16-bit bounds.
\<close>

theorem convert_to_signed16_length_and_bounds:
  "\<exists>out. convert_to_signed16 wave = Inr out \<and> length out = length wave \<and>
     (\<forall>i < length wave.
        sint (out ! i) = min (max ((uint (wave ! i) - 128) * 256) (- 32767)) 32767 \<and>
        - 32768 \<le> sint (out ! i) \<and> sint (out ! i) \<le> 32767)"
proof -
  let ?out = "map (\<lambda>w. astype_int16 (np_clip (signed_of_sample w) (- 32767) 32767)) wave"
  have "convert_to_signed16 wave = Inr ?out"
    by (simp add: convert_to_signed16_def)
  moreover have "length ?out = length wave"
    by simp
  moreover have "\<forall>i < length wave.
        sint (?out ! i) = min (max ((uint (wave ! i) - 128) * 256) (- 32767)) 32767 \<and>
        - 32768 \<le> sint (?out ! i) \<and> sint (?out ! i) \<le> 32767"
    by (simp add: converted_sample max_def)
  ultimately show ?thesis by blast
qed

theorem convert_to_signed16_length_and_bounds_witness:
  "convert_to_signed16 [0, 64, 128, 192, 255] = Inr [- 32767, - 16384, 0, 16384, 32512] \<and>
   length [- 32767, - 16384, 0, 16384, 32512 :: 16 word] = length [0, 64, 128, 192, 255 :: 8 word] \<and>
   sint ([- 32767, - 16384, 0, 16384, 32512 :: 16 word] ! 4) = 32512"
  using convert_to_signed16_length_and_bounds [of "[0, 64, 128, 192, 255]"]
  by (simp add: convert_to_signed16_def astype_int16_def np_clip_def signed_of_sample_def
      float_of_uint8_def trunc_toward_zero_def)

text \<open>
  C9. The Signal Converter's lower clip bound is \<open>-32767\<close>: no converted sample is
  \<open>-32768\<close>, and a raw sample \<open>0\<close> is converted to \<open>-32767\<close>.
\<close>

theorem convert_to_signed16_min_is_minus_32767:
  "\<exists>out. convert_to_signed16 wave = Inr out \<and>
     (\<forall>s \<in> set out. - 32767 \<le> sint s \<and> sint s \<noteq> - 32768) \<and>
     (\<forall>i < length wave. wave ! i = 0 \<longrightarrow> out ! i = - 32767)"
proof -
  let ?f = "\<lambda>w. astype_int16 (np_clip (signed_of_sample w) (- 32767) 32767)"
  have "convert_to_signed16 wave = Inr (map ?f wave)"
    by (simp add: convert_to_signed16_def)
  moreover have "\<forall>s \<in> set (map ?f wave). - 32767 \<le> sint s \<and> sint s \<noteq> - 32768"
  proof
    fix s assume "s \<in> set (map ?f wave)"
    then obtain w where "s = ?f w" by auto
    then have "- 32767 \<le> sint s" by (simp add: converted_sample_bounds)
    then show "- 32767 \<le> sint s \<and> sint s \<noteq> - 32768" by simp
  qed
  moreover have "\<forall>i < length wave. wave ! i = 0 \<longrightarrow> map ?f wave ! i = - 32767"
    by (simp add: astype_int16_def np_clip_def signed_of_sample_def float_of_uint8_def
        trunc_toward_zero_def)
  ultimately show ?thesis by blast
qed

theorem convert_to_signed16_min_is_minus_32767_witness:
  "convert_to_signed16 [0, 1, 128] = Inr [- 32767, - 32512, 0] \<and>
   (0 :: nat) < length [0, 1, 128 :: 8 word] \<and> [0, 1, 128 :: 8 word] ! 0 = 0 \<and>
   - 32767 \<in> set [- 32767, - 32512, 0 :: 16 word] \<and> sint (- 32767 :: 16 word) = - 32767"
  using convert_to_signed16_min_is_minus_32767 [of "[0, 1, 128]"]
  by (simp add: convert_to_signed16_def astype_int16_def np_clip_def signed_of_sample_def
      float_of_uint8_def trunc_toward_zero_def)

text \<open>
  C2 (as the code has it). The Signal Converter does not reject a waveform for its length:
  for every input, of 64 samples or not, it returns a waveform of the input's length and
  raises nothing.
\<close>

theorem convert_to_signed16_never_fails:
  "\<exists>out. convert_to_signed16 wave = Inr out \<and> length out = length wave"
  by (simp add: convert_to_signed16_def)

text \<open>
  The claim that a waveform whose length is not 64 is rejected fails on the waveform
  \<open>[0, 64, 128, 192]\<close> of length 4, which is converted.
\<close>

theorem convert_to_signed16_rejects_counterexample:
  "length [0, 64, 128, 192 :: 8 word] \<noteq> PPG_SAMPLES \<and>
   convert_to_signed16 [0, 64, 128, 192] = Inr [- 32767, - 16384, 0, 16384]"
  by (simp add: PPG_SAMPLES_def convert_to_signed16_def astype_int16_def np_clip_def
      signed_of_sample_def float_of_uint8_def trunc_toward_zero_def)

subsection \<open>Legacy Waveform Extractor\<close>

lemma np_array_uint8_bytes:
  "\<forall>v \<in> set vs. v < 256 \<Longrightarrow> np_array_uint8 vs = Inr (map of_nat vs)"
  by (simp add: np_array_uint8_def list_all_iff)

lemma py_slice_subset: "set (py_slice xs i j) \<subseteq> set xs"
  unfolding py_slice_def by (meson set_take_subset set_drop_subset subset_trans)

lemma collect_waveforms_bytes:
  assumes "\<forall>v \<in> set values. v < 256"
  shows "collect_waveforms values starts =
     Inr (map (\<lambda>i. map of_nat (py_slice values i (i + PPG_SAMPLES)))
            (filter (\<lambda>i. i + PPG_SAMPLES \<le> length values) starts))"
proof (induction starts)
  case Nil
  show ?case by simp
next
  case (Cons i rest)
  have "np_array_uint8 (py_slice values i (i + PPG_SAMPLES))
      = Inr (map of_nat (py_slice values i (i + PPG_SAMPLES)))"
    using assms py_slice_subset [of "values" i "i + PPG_SAMPLES"]
    by (intro np_array_uint8_bytes) blast
  with Cons show ?case by simp
qed

lemma full_chunk_starts:
  "filter (\<lambda>i. i + 64 \<le> n) (py_range_step n 64) = map (\<lambda>k. k * 64) [0 ..< n div 64]"
proof -
  let ?m = "(n + 64 - 1) div 64"
  have le: "n div 64 \<le> ?m" by simp
  have iff: "k * 64 + 64 \<le> n \<longleftrightarrow> k < n div 64" for k :: nat
    by arith
  have "filter (\<lambda>k. k < n div 64) [0 ..< ?m] = [0 ..< n div 64]"
  proof -
    have "[0 ..< ?m] = [0 ..< n div 64] @ [n div 64 ..< ?m]"
      using le by (metis le_add_diff_inverse upt_add_eq_append zero_le)
    then show ?thesis by (simp add: filter_empty_conv)
  qed
  then show ?thesis
    by (simp add: py_range_step_def filter_map comp_def iff)
qed

text \<open>
  C7 (as the code has it). A flat stream of \<open>N\<close> values that are all at most 255 is split
  into exactly \<open>N div 64\<close> waveforms; the \<open>k\<close>-th waveform has exactly 64 samples and
  holds the values at the positions \<open>64 k, \<dots>, 64 k + 63\<close> of the stream, in that order.
  So the waveforms follow the order of the stream, and the \<open>N mod 64\<close> values after the
  last full chunk appear in no waveform; nothing is padded.
\<close>

theorem split_waveforms_chunks:
  assumes "\<forall>v \<in> set values. v < 256"
  shows "\<exists>waveforms. split_waveforms values = Inr waveforms \<and>
     length waveforms = length values div 64 \<and>
     (\<forall>k < length values div 64.
        length (waveforms ! k) = 64 \<and>
        map unat (waveforms ! k) = take 64 (drop (64 * k) values))"
proof -
  let ?chunk = "\<lambda>k. map of_nat (take 64 (drop (k * 64) values)) :: 8 word list"
  have run: "split_waveforms values = Inr (map ?chunk [0 ..< length values div 64])"
    using full_chunk_starts [of "length values"]
    by (simp add: split_waveforms_def collect_waveforms_bytes [OF assms] PPG_SAMPLES_def
        py_slice_def comp_def)
  have "length (?chunk k) = 64 \<and> map unat (?chunk k) = take 64 (drop (64 * k) values)"
    if "k < length values div 64" for k
  proof -
    from that have "k * 64 + 64 \<le> length values"
      by arith
    then have len: "length (?chunk k) = 64" by simp
    have "\<forall>v \<in> set (take 64 (drop (k * 64) values)). v < 256"
      using assms by (meson in_set_takeD in_set_dropD)
    then have "map unat (?chunk k) = take 64 (drop (k * 64) values)"
      by (simp add: map_idI unat_of_nat comp_def)
    with len show ?thesis by (simp add: mult.commute)
  qed
  with run show ?thesis by simp
qed

theorem split_waveforms_chunks_witness:
  "split_waveforms (replicate 64 1 @ replicate 64 2 @ [9, 9, 9])
     = Inr [replicate 64 1, replicate 64 2] \<and>
   length (replicate 64 (1::nat) @ replicate 64 2 @ [9, 9, 9]) div 64 = 2"
proof -
  let ?vals = "replicate 64 1 @ replicate 64 2 @ [9, 9, 9 :: nat]"
  have bytes: "\<forall>v \<in> set ?vals. v < 256" by auto
  have "split_waveforms ?vals = Inr [replicate 64 1, replicate 64 2]"
    by code_simp
  then show ?thesis
    using split_waveforms_chunks [OF bytes] by simp
qed

text \<open>
  Without the bound on the values the extractor yields no waveforms at all: a stream of
  64 values 300 has one full chunk, and storing it into bytes raises \<^verbatim>\<open>OverflowError\<close>.
\<close>

theorem split_waveforms_overflow_counterexample:
  "length (replicate 64 (300 :: nat)) div 64 = 1 \<and>
   split_waveforms (replicate 64 300) = Inl OverflowError"
  by (simp add: split_waveforms_def py_range_step_def PPG_SAMPLES_def py_slice_def
      np_array_uint8_def upt_conv_Cons list_all_iff)

subsection \<open>Periodic Resampler\<close>

text \<open>
  The data handed to the cubic fit: the waveform followed by a copy of its first four
  samples, at the abscissas \<open>k / L\<close> carried on past 1. Phase 0 and phase 1 are both
  abscissas of the fit, and they carry the same ordinate, the waveform's first sample.
  What the fit does between and at its abscissas is the library's.
\<close>

lemma length_np_linspace_open: "length (np_linspace_open start stop num) = num"
  by (simp add: np_linspace_open_def)

lemma resampler_fits_periodic_extension:
  assumes "wave \<noteq> []"
  shows "wave_extended wave = map float_of_int16 wave @ map float_of_int16 (take 4 wave)"
    and "x_extended wave ! 0 = 0"
    and "x_extended wave ! length wave = 1"
    and "wave_extended wave ! length wave = wave_extended wave ! 0"
proof -
  from assms have pos: "0 < length wave" by simp
  show "wave_extended wave = map float_of_int16 wave @ map float_of_int16 (take 4 wave)"
    by (simp add: wave_extended_def)
  show "x_extended wave ! 0 = 0"
    using pos by (simp add: x_extended_def Let_def nth_append np_linspace_open_def)
  show "x_extended wave ! length wave = 1"
    using pos
    by (simp add: x_extended_def Let_def nth_append length_np_linspace_open)
      (simp add: np_linspace_open_def)
  show "wave_extended wave ! length wave = wave_extended wave ! 0"
    using pos by (simp add: wave_extended_def nth_append)
qed

lemma length_x_extended: "length (x_extended wave) = length wave + min 4 (length wave)"
  by (simp add: x_extended_def Let_def length_np_linspace_open min.commute)

lemma length_wave_extended: "length (wave_extended wave) = length wave + min 4 (length wave)"
  by (simp add: wave_extended_def min.commute)

lemma nth_x_extended:
  "k < length wave \<Longrightarrow> x_extended wave ! k = real k / real (length wave)"
  "j < min 4 (length wave) \<Longrightarrow>
     x_extended wave ! (length wave + j) = real j / real (length wave) + 1"
  by (simp_all add: x_extended_def Let_def nth_append length_np_linspace_open
      np_linspace_open_def)

lemma nth_wave_extended:
  "k < length wave \<Longrightarrow> wave_extended wave ! k = float_of_int16 (wave ! k)"
  "j < min 4 (length wave) \<Longrightarrow>
     wave_extended wave ! (length wave + j) = float_of_int16 (wave ! j)"
  by (simp_all add: wave_extended_def nth_append)

text \<open>
  C6. The resampler fits the cubic to the waveform extended by a copy of its leading
  samples (up to four) on its tail, at phases that carry on past 1, and evaluates the fit
  at the phases \<open>i / target\<close>. Whenever the fit passes through its data points within a
  tolerance \<open>tol\<close>, its values at phase 0 and at phase 1 agree within \<open>2 tol\<close>; so the seam
  is no greater than the step between the last and the first sample of the waveform, up
  to that tolerance. For a fit that passes through its data exactly (\<open>tol = 0\<close>) the two
  values are equal.
\<close>

theorem resampler_periodic_seam:
  assumes "wave \<noteq> []"
    and "cubic (x_extended wave) (wave_extended wave) = Inr f"
    and "\<forall>i < length (x_extended wave). \<bar>f (x_extended wave ! i) - wave_extended wave ! i\<bar> \<le> tol"
  shows "wave_extended wave = map float_of_int16 (wave @ take 4 wave) \<and>
     (\<forall>k < length wave.
        x_extended wave ! k = real k / real (length wave) \<and>
        wave_extended wave ! k = float_of_int16 (wave ! k)) \<and>
     (\<forall>j < min 4 (length wave).
        x_extended wave ! (length wave + j) = real j / real (length wave) + 1 \<and>
        wave_extended wave ! (length wave + j) = float_of_int16 (wave ! j)) \<and>
     interpolate_wave cubic wave target = Inr (map f (np_linspace_open 0 1 target)) \<and>
     \<bar>f 1 - f 0\<bar> \<le> 2 * tol \<and>
     \<bar>f 1 - f 0\<bar> \<le> \<bar>float_of_int16 (last wave) - float_of_int16 (hd wave)\<bar> + 2 * tol"
proof -
  let ?L = "length wave"
  from assms(1) have pos: "0 < ?L" by simp
  then have in0: "0 < length (x_extended wave)" and inL: "?L < length (x_extended wave)"
    by (simp_all add: length_x_extended)
  from resampler_fits_periodic_extension [OF assms(1)]
  have x0: "x_extended wave ! 0 = 0" and xL: "x_extended wave ! ?L = 1"
    and yL: "wave_extended wave ! ?L = wave_extended wave ! 0"
    by simp_all
  from assms(3) in0 x0 have "\<bar>f 0 - wave_extended wave ! 0\<bar> \<le> tol"
    by fastforce
  moreover from assms(3) inL xL yL have "\<bar>f 1 - wave_extended wave ! 0\<bar> \<le> tol"
    by fastforce
  ultimately have seam: "\<bar>f 1 - f 0\<bar> \<le> 2 * tol"
    by linarith
  then have raw: "\<bar>f 1 - f 0\<bar>
      \<le> \<bar>float_of_int16 (last wave) - float_of_int16 (hd wave)\<bar> + 2 * tol"
    by linarith
  have run: "interpolate_wave cubic wave target = Inr (map f (np_linspace_open 0 1 target))"
    using assms(2) by (simp add: interpolate_wave_def)
  have ext: "wave_extended wave = map float_of_int16 (wave @ take 4 wave)"
    by (simp add: wave_extended_def)
  have head: "\<forall>k < length wave.
        x_extended wave ! k = real k / real (length wave) \<and>
        wave_extended wave ! k = float_of_int16 (wave ! k)"
    by (simp add: nth_x_extended nth_wave_extended)
  have tail: "\<forall>j < min 4 (length wave).
        x_extended wave ! (length wave + j) = real j / real (length wave) + 1 \<and>
        wave_extended wave ! (length wave + j) = float_of_int16 (wave ! j)"
    using nth_x_extended(2) [of _ wave] nth_wave_extended(2) [of _ wave] by blast
  from ext head tail run seam raw show ?thesis by blast
qed

theorem resampler_periodic_seam_witness:
  "[0, 16384, 0, - 16384 :: 16 word] \<noteq> [] \<and>
   x_extended [0, 16384, 0, - 16384] = [0, 1 / 4, 1 / 2, 3 / 4, 1, 5 / 4, 3 / 2, 7 / 4] \<and>
   wave_extended [0, 16384, 0, - 16384]
     = [0, 16384, 0, - 16384, 0, 16384, 0, - 16384] \<and>
   linear_fit (x_extended [0, 16384, 0, - 16384]) (wave_extended [0, 16384, 0, - 16384])
     = Inr (segment_value (x_extended [0, 16384, 0, - 16384])
              (wave_extended [0, 16384, 0, - 16384])) \<and>
   \<bar>segment_value (x_extended [0, 16384, 0, - 16384])
       (wave_extended [0, 16384, 0, - 16384]) 1
     - segment_value (x_extended [0, 16384, 0, - 16384])
       (wave_extended [0, 16384, 0, - 16384]) 0\<bar> \<le> 2 * 0 \<and>
   \<bar>float_of_int16 (last [0, 16384, 0, - 16384]) - float_of_int16 (hd [0, 16384, 0, - 16384])\<bar>
     = 16384"
proof -
  let ?w = "[0, 16384, 0, - 16384 :: 16 word]"
  have xs: "x_extended ?w = [0, 1 / 4, 1 / 2, 3 / 4, 1, 5 / 4, 3 / 2, 7 / 4]"
    by (simp add: x_extended_def np_linspace_open_def upt_conv_Cons)
  have ys: "wave_extended ?w = [0, 16384, 0, - 16384, 0, 16384, 0, - 16384]"
    by (simp add: wave_extended_def float_of_int16_def)
  have fit: "linear_fit (x_extended ?w) (wave_extended ?w)
      = Inr (segment_value (x_extended ?w) (wave_extended ?w))"
    by (simp add: linear_fit_def xs ys)
  have through: "\<forall>i < length (x_extended ?w).
      \<bar>segment_value (x_extended ?w) (wave_extended ?w) (x_extended ?w ! i)
         - wave_extended ?w ! i\<bar> \<le> 0"
    by (simp add: xs ys less_Suc_eq numeral_eq_Suc [of "num.Bit0 (num.Bit0 (num.Bit0 num.One))"]
        all_conj_distrib) 
  have raw: "\<bar>float_of_int16 (last ?w) - float_of_int16 (hd ?w)\<bar> = 16384"
    by (simp add: float_of_int16_def)
  have ne: "?w \<noteq> []" by simp
  from resampler_periodic_seam [where wave = ?w and cubic = linear_fit and tol = 0
      and target = 256, OF ne fit through] xs ys fit raw
  show ?thesis by simp
qed

subsection \<open>Anti-Aliasing Integrator\<close>

lemma length_cumsum_from: "length (cumsum_from acc xs) = length xs"
  by (induction xs arbitrary: acc) simp_all

lemma nth_cumsum_from:
  "i < length xs \<Longrightarrow> cumsum_from acc xs ! i = acc + sum_list (take (Suc i) xs)"
proof (induction xs arbitrary: acc i)
  case Nil
  then show ?case by simp
next
  case (Cons x xs)
  then show ?case by (cases i) simp_all
qed

lemma length_np_cumsum: "length (np_cumsum xs) = length xs"
  by (simp add: np_cumsum_def length_cumsum_from)

lemma nth_np_cumsum: "i < length xs \<Longrightarrow> np_cumsum xs ! i = sum_list (take (Suc i) xs)"
  by (simp add: np_cumsum_def nth_cumsum_from)

lemma length_np_linspace: "length (np_linspace start stop num) = num"
  by (simp add: np_linspace_def)

lemma nth_np_linspace:
  "i < num \<Longrightarrow> 2 \<le> num \<Longrightarrow>
     np_linspace start stop num ! i = start + real i * ((stop - start) / real (num - 1))"
  by (simp add: np_linspace_def)

lemma length_dc_ramp: "length (dc_ramp xs) = length xs"
  by (simp add: dc_ramp_def length_np_linspace)


text \<open>
  C3 (as the code has it). In integration mode the running cumulative sum is computed
  (\<open>np_cumsum wave ! i\<close> is the sum of the first \<open>i + 1\<close> samples), and the ramp that is
  subtracted from it element by element is the straight line whose first value is \<open>0\<close> and
  whose last value is the last cumulative value. Stated for waveforms of at least two
  samples, where the line has two endpoints.
\<close>

theorem dc_ramp_from_zero_to_last:
  assumes "2 \<le> length wave"
  shows "length (dc_ramp (np_cumsum wave)) = length wave \<and>
     dc_ramp (np_cumsum wave) ! 0 = 0 \<and>
     dc_ramp (np_cumsum wave) ! (length wave - 1) = last (np_cumsum wave) \<and>
     (\<forall>i < length wave.
        np_cumsum wave ! i = sum_list (take (Suc i) wave) \<and>
        dc_ramp (np_cumsum wave) ! i
          = real i * (last (np_cumsum wave) / real (length wave - 1)) \<and>
        drift_removed wave ! i = np_cumsum wave ! i - dc_ramp (np_cumsum wave) ! i)"
proof -
  let ?c = "np_cumsum wave" and ?n = "length wave"
  have n: "length ?c = ?n" by (rule length_np_cumsum)
  have line: "dc_ramp ?c ! i = real i * (last ?c / real (?n - 1))" if "i < ?n" for i
    using that assms by (simp add: dc_ramp_def n nth_np_linspace)
  from assms have pos: "0 < ?n" and pred: "?n - 1 < ?n"
    by (cases wave; simp)+
  have first: "dc_ramp ?c ! 0 = 0"
    using line [OF pos] by simp
  have final: "dc_ramp ?c ! (?n - 1) = last ?c"
    using line [OF pred] assms by simp
  have diff: "drift_removed wave ! i = ?c ! i - dc_ramp ?c ! i" if "i < ?n" for i
    using that by (simp add: drift_removed_def Let_def n length_dc_ramp)
  show ?thesis
    using first final line diff by (simp add: length_dc_ramp n nth_np_cumsum)
qed

theorem dc_ramp_from_zero_to_last_witness:
  "(2 :: nat) \<le> length [1, 1, 1 :: real] \<and> np_cumsum [1, 1, 1] = [1, 2, 3] \<and>
   dc_ramp (np_cumsum [1, 1, 1]) = [0, 3 / 2, 3] \<and> drift_removed [1, 1, 1] = [1, 1 / 2, 0]"
proof -
  have ev: "np_cumsum [1, 1, 1] = [1, 2, 3]"
    "dc_ramp [1, 2, 3] = [0, 3 / 2, 3]"
    "drift_removed [1, 1, 1] = [1, 1 / 2, 0]"
    by (simp_all add: np_cumsum_def dc_ramp_def drift_removed_def np_linspace_def upt_conv_Cons)
  then show ?thesis
    using dc_ramp_from_zero_to_last [of "[1, 1, 1]"] by simp
qed

text \<open>
  The ramp does not start at the first cumulative value: for the waveform \<open>[1, 1, 1]\<close>
  the cumulative sums are \<open>[1, 2, 3]\<close> and the ramp is \<open>[0, 3/2, 3]\<close>.
\<close>

theorem dc_ramp_first_endpoint_counterexample:
  "np_cumsum [1, 1, 1] = [1, 2, 3] \<and> dc_ramp (np_cumsum [1, 1, 1]) = [0, 3 / 2, 3] \<and>
   hd (dc_ramp (np_cumsum [1, 1, 1])) \<noteq> hd (np_cumsum [1, 1, 1])"
  by (simp add: np_cumsum_def dc_ramp_def np_linspace_def upt_conv_Cons)

lemma fold_max_zeros: "\<forall>x \<in> set xs. x = (0::real) \<Longrightarrow> fold max xs 0 = 0"
  by (induction xs) simp_all

lemma np_max_nonempty: "xs \<noteq> [] \<Longrightarrow> \<exists>m. np_max xs = Inr m"
  by (cases xs) (simp_all add: np_max_def)

lemma np_max_zeros: "xs \<noteq> [] \<Longrightarrow> \<forall>x \<in> set xs. x = 0 \<Longrightarrow> np_max xs = Inr 0"
  by (cases xs) (simp_all add: np_max_def fold_max_zeros)

lemma to_int16_zeros: "\<forall>x \<in> set xs. x = 0 \<Longrightarrow> to_int16 xs = replicate (length xs) 0"
  by (induction xs)
    (simp_all add: to_int16_def astype_int16_def np_clip_def trunc_toward_zero_def)

text \<open>
  C10. Whatever array lines 147 to 152 have computed and however the float64 operations
  round, the normalisation never divides by zero; and when that array is not empty and
  zero everywhere (peak absolute value 0), the scaling is skipped and the result is the
  all-zero waveform of the same length.
\<close>

theorem normalise_wave_zero_guard:
  "normalise_wave fl integrated \<noteq> Inl DivideByZero \<and>
   (integrated \<noteq> [] \<and> (\<forall>x \<in> set integrated. x = 0)
      \<longrightarrow> normalise_wave fl integrated = Inr (replicate (length integrated) 0))"
proof (cases "integrated = []")
  case True
  then show ?thesis by (simp add: normalise_wave_def np_max_def)
next
  case False
  then obtain m where m: "np_max (map abs integrated) = Inr m"
    using np_max_nonempty [of "map abs integrated"] by auto
  have no_div: "normalise_wave fl integrated \<noteq> Inl DivideByZero"
    using m by (simp add: normalise_wave_def float_div_def)
  have "normalise_wave fl integrated = Inr (replicate (length integrated) 0)"
    if z: "\<forall>x \<in> set integrated. x = 0"
  proof -
    from z False have "np_max (map abs integrated) = Inr 0"
      by (intro np_max_zeros) auto
    then have "normalise_wave fl integrated = Inr (to_int16 integrated)"
      by (simp add: normalise_wave_def)
    then show ?thesis
      using z by (simp add: to_int16_zeros)
  qed
  with no_div show ?thesis by blast
qed

theorem normalise_wave_zero_guard_witness:
  "drift_removed [0, 1, 1, 1] = [0, 0, 0, 0] \<and> [0, 0, 0, 0 :: real] \<noteq> [] \<and>
   normalise_wave (\<lambda>x. x) [0, 0, 0, 0] = Inr [0, 0, 0, 0] \<and>
   integrate_wave [0, 1, 1, 1] = Inr [0, 0, 0, 0]"
proof -
  have ev: "drift_removed [0, 1, 1, 1] = [0, 0, 0, 0]"
    by (simp add: np_cumsum_def dc_ramp_def drift_removed_def np_linspace_def upt_conv_Cons)
  have "np_cumsum [0, 1, 1, 1] \<noteq> []"
    by (simp add: np_cumsum_def)
  then have "integrate_wave [0, 1, 1, 1] = normalise_wave (\<lambda>x. x) [0, 0, 0, 0]"
    by (simp add: integrate_wave_def ev)
  then show ?thesis
    using normalise_wave_zero_guard [of "\<lambda>x. x" "[0, 0, 0, 0]"] ev
    by (simp add: numeral_eq_Suc)
qed

subsection \<open>Guard Appender and Bank Assembler\<close>

lemma then_rest_Inl [simp]: "then_rest (msgs, Inl e) rest = (msgs, Inl e)"
  by (simp add: then_rest_def)

































lemma segment_value_flat:
  "\<forall>y \<in> set ys. y = c \<Longrightarrow> ys \<noteq> [] \<Longrightarrow> segment_value xs ys x = c"
  by (induction xs ys x rule: segment_value.induct) auto

lemma linear_fit_flat:
  "4 \<le> n \<Longrightarrow> linear_fit (x_extended (replicate n v)) (wave_extended (replicate n v))
     = Inr (segment_value (x_extended (replicate n v)) (wave_extended (replicate n v))) \<and>
   segment_value (x_extended (replicate n v)) (wave_extended (replicate n v)) x
     = float_of_int16 v"
proof -
  assume n: "4 \<le> n"
  then have "linear_fit (x_extended (replicate n v)) (wave_extended (replicate n v))
     = Inr (segment_value (x_extended (replicate n v)) (wave_extended (replicate n v)))"
    by (simp add: linear_fit_def length_x_extended length_wave_extended)
  moreover have "\<forall>y \<in> set (wave_extended (replicate n v)). y = float_of_int16 v"
    by (auto simp: wave_extended_def dest: in_set_takeD)
  moreover from n have "wave_extended (replicate n v) \<noteq> []"
    by (auto simp: wave_extended_def)
  ultimately show ?thesis
    by (simp add: segment_value_flat)
qed

lemma linear_fit_follows_flat_data: "follows_flat_data linear_fit"
  unfolding follows_flat_data_def
proof
  fix v
  have "4 \<le> PPG_SAMPLES" by (simp add: PPG_SAMPLES_def)
  from linear_fit_flat [OF this, of v] show "\<exists>f. linear_fit (x_extended (replicate PPG_SAMPLES v))
       (wave_extended (replicate PPG_SAMPLES v)) = Inr f \<and>
     (\<forall>x. 0 \<le> x \<and> x < 1 \<longrightarrow> \<bar>f x - float_of_int16 v\<bar> \<le> 1 / 2)"
    by simp
qed





lemma out_of_range_slot:
  assumes "waveforms \<noteq> []" and "length waveforms \<le> idx"
  shows "process_slot cubic waveforms integrate name i idx =
     (case process_wave cubic waveforms integrate 0 of
        Inl e \<Rightarrow> ([idx], Inl e)
      | Inr with_guard \<Rightarrow>
          ([idx], Inr \<lparr>wave_name = ''wt_'' @ lower name @ ''_'' @ str_nat i,
                       ppg_wave = 0, samples = with_guard\<rparr>))"
  using assms by (simp add: process_slot_def Let_def)

text \<open>
  C4. With an empty set of extracted waveforms the index 0 that replaces an out-of-range
  index is out of range too: the warning for wave 0 is printed and \<^verbatim>\<open>waveforms[0]\<close>
  raises \<^verbatim>\<open>IndexError\<close>, whatever the cubic fit and the integration mode.
\<close>

theorem generate_wavetables_h_empty_set:
  "generate_wavetables_h cubic [] integrate = ([0], Inl IndexError)"
  by (simp add: generate_wavetables_h_def generate_for_def BANK_SELECTIONS_def
      process_bank_def process_slot_def process_wave_def)

end
